theory Spec2Isabelle
  imports Complex_Main
begin

section \<open>The SAF life-cycle model (class SAF_LCA_Model of LCA_calculation.py)\<close>

text \<open>
  The class keeps five parameter groups and one result table, all Python dictionaries, and
  every method reads or overwrites them. The embedding passes the object's state explicitly:
  a method is a function from the state before the call to the pair of its outcome (the
  value returned, or the exception raised) and the state after the call, so that what an
  exception leaves behind is part of the model.

  Python floats are idealised as real numbers: a division by a zero divisor raises
  ZeroDivisionError as in Python; the rounding, underflow and overflow of binary64 are not
  modelled. The theorems that settle the claims are stated accordingly: they relate values that the
  code computes by one and the same expression, or bound a value with a wide margin, and
  none concludes that a division succeeds from a parameter being nonzero (in binary64 a
  nonzero percentage can underflow to the divisor 0.0 when divided by 100), nor orders two
  computed values strictly. The narration printed by the
  methods is not modelled, with one exception: the warning that set_electrolysis_data prints
  for an unknown electricity source is the list of strings that function returns. The
  parameter silent is kept only where it decides that warning.
\<close>

subsection \<open>Exceptions\<close>

text \<open>
  The two ValueErrors of the source are told apart by their place: the one of calculate_lca
  (a parameter group is missing) and the one of set_distribution_data (unsupported transport
  mode, carrying the rejected mode).
\<close>

datatype error =
    ValueError_missing_data
  | ValueError_transport_mode string
  | ZeroDivisionError
  | KeyError string

definition bind_result :: "error + 'a \<Rightarrow> ('a \<Rightarrow> error + 'b) \<Rightarrow> error + 'b" where
  "bind_result r f = (case r of Inl e \<Rightarrow> Inl e | Inr v \<Rightarrow> f v)"

text \<open>Python's \<open>x / y\<close> on floats.\<close>

definition truediv :: "real \<Rightarrow> real \<Rightarrow> error + real" where
  "truediv x y = (if y = 0 then Inl ZeroDivisionError else Inr (x / y))"

subsection \<open>Data\<close>

text \<open>
  A parameter group is either the empty dictionary of the constructor (\<open>None\<close>) or the
  dictionary one setter call stored, whose keys are fixed (\<open>Some\<close> of a record). The two
  optional keys of the conversion group are optional fields. Fields that several groups
  share in the source (ghg_emissions, energy_input, water_usage) carry the group as a prefix.
\<close>

record conversion =
  technology :: string
  efficiency :: real
  conv_ghg_emissions :: real
  conv_energy_input :: real
  conv_water_usage :: real
  syngas_requirement :: "real option"
  co_h2_ratio :: "real option"

record distribution =
  transport_distance :: real
  transport_mode :: string
  fuel_density :: real
  emission_factor :: real
  energy_factor :: real
  dist_ghg_emissions :: real
  dist_energy_input :: real

record use_phase =
  combustion_emissions :: real
  energy_density :: real

record carbon_capture =
  capture_efficiency :: real
  energy_requirement :: real
  cc_ghg_emissions :: real
  cc_water_usage :: real
  co2_capture_rate :: real

record electrolysis =
  co2_electrolysis_efficiency :: real
  water_electrolysis_efficiency :: real
  electricity_source :: string
  electricity_carbon_intensity :: real
  energy_input_co :: real
  energy_input_h2 :: real
  el_water_usage :: real

text \<open>A dictionary from stage names to numbers, in insertion order.\<close>

type_synonym pydict = "(string \<times> real) list"

definition getitem :: "pydict \<Rightarrow> string \<Rightarrow> error + real" where
  "getitem d k = (case map_of d k of None \<Rightarrow> Inl (KeyError k) | Some v \<Rightarrow> Inr v)"

record lca_result =
  ghg_emissions :: pydict
  energy_consumption :: pydict
  water_usage :: pydict
  land_use :: pydict

record model =
  conversion_data :: "conversion option"
  distribution_data :: "distribution option"
  use_phase_data :: "use_phase option"
  carbon_capture_data :: "carbon_capture option"
  electrolysis_data :: "electrolysis option"
  results :: lca_result

definition init_model :: model where
  "init_model =
     \<lparr>conversion_data = None, distribution_data = None, use_phase_data = None,
      carbon_capture_data = None, electrolysis_data = None,
      results = \<lparr>ghg_emissions = [], energy_consumption = [], water_usage = [], land_use = []\<rparr>\<rparr>"

subsection \<open>Setters\<close>

definition set_conversion_data ::
  "string \<Rightarrow> real \<Rightarrow> real \<Rightarrow> real \<Rightarrow> real \<Rightarrow> real option \<Rightarrow> real option \<Rightarrow> model \<Rightarrow> model" where
  "set_conversion_data technology' efficiency' ghg_emissions' energy_input' water_usage'
       syngas_requirement' co_h2_ratio' m =
     m\<lparr>conversion_data := Some
        \<lparr>technology = technology', efficiency = efficiency',
         conv_ghg_emissions = ghg_emissions', conv_energy_input = energy_input',
         conv_water_usage = water_usage',
         syngas_requirement = syngas_requirement', co_h2_ratio = co_h2_ratio'\<rparr>\<rparr>"

definition emission_factors :: "(string \<times> real) list" where
  "emission_factors =
     [(''truck'', 0.062), (''rail'', 0.022), (''ship'', 0.015), (''barge'', 0.031),
      (''pipeline'', 0.002)]"

definition energy_factors :: "(string \<times> real) list" where
  "energy_factors =
     [(''truck'', 2.1), (''rail'', 0.6), (''ship'', 0.4), (''barge'', 0.8),
      (''pipeline'', 0.1)]"

definition set_distribution_data ::
  "real \<Rightarrow> string \<Rightarrow> real \<Rightarrow> model \<Rightarrow> (error + unit) \<times> model" where
  "set_distribution_data transport_distance' transport_mode' fuel_density' m =
     (case map_of emission_factors transport_mode' of
        None \<Rightarrow> (Inl (ValueError_transport_mode transport_mode'), m)
      | Some emission_factor' \<Rightarrow>
          (case map_of energy_factors transport_mode' of
             None \<Rightarrow> (Inl (KeyError transport_mode'), m)
           | Some energy_factor' \<Rightarrow>
               (let fuel_weight_tonne = 0.001;
                    transport_emissions = emission_factor' * fuel_weight_tonne * transport_distance';
                    transport_energy = energy_factor' * fuel_weight_tonne * transport_distance'
                in (Inr (),
                    m\<lparr>distribution_data := Some
                       \<lparr>transport_distance = transport_distance',
                        transport_mode = transport_mode',
                        fuel_density = fuel_density',
                        emission_factor = emission_factor',
                        energy_factor = energy_factor',
                        dist_ghg_emissions = transport_emissions,
                        dist_energy_input = transport_energy\<rparr>\<rparr>))))"

definition set_use_phase_data :: "real \<Rightarrow> real \<Rightarrow> model \<Rightarrow> model" where
  "set_use_phase_data combustion_emissions' energy_density' m =
     m\<lparr>use_phase_data := Some
        \<lparr>combustion_emissions = combustion_emissions', energy_density = energy_density'\<rparr>\<rparr>"

definition set_carbon_capture_data ::
  "real \<Rightarrow> real \<Rightarrow> real \<Rightarrow> real \<Rightarrow> real \<Rightarrow> model \<Rightarrow> model" where
  "set_carbon_capture_data capture_efficiency' energy_requirement' ghg_emissions' water_usage'
       co2_capture_rate' m =
     m\<lparr>carbon_capture_data := Some
        \<lparr>capture_efficiency = capture_efficiency', energy_requirement = energy_requirement',
         cc_ghg_emissions = ghg_emissions', cc_water_usage = water_usage',
         co2_capture_rate = co2_capture_rate'\<rparr>\<rparr>"

definition electricity_carbon_intensities :: "(string \<times> real) list" where
  "electricity_carbon_intensities =
     [(''grid_global'', 0.475), (''grid_eu'', 0.253), (''grid_china'', 0.638),
      (''grid_us'', 0.389), (''natural_gas'', 0.410), (''coal'', 0.820),
      (''solar'', 0.048), (''wind'', 0.011), (''hydro'', 0.024), (''nuclear'', 0.012),
      (''biomass'', 0.230), (''renewable_mix'', 0.030), (''low_carbon_mix'', 0.100),
      (''renewable'', 0.020)]"

definition unrecognized_warning :: "string \<Rightarrow> string" where
  "unrecognized_warning electricity_source' =
     ''Warning: Electricity source '' @ [CHR 0x27] @ electricity_source' @ [CHR 0x27]
       @ '' not recognized. Using default value.''"

text \<open>
  The first component of the result is the list of warnings printed. The subscript
  \<open>electricity_carbon_intensities["renewable"]\<close> of the fallback branch raises KeyError
  when the key is missing, which the table excludes.
\<close>

definition set_electrolysis_data ::
  "real \<Rightarrow> real \<Rightarrow> string \<Rightarrow> real \<Rightarrow> real \<Rightarrow> real \<Rightarrow> real option \<Rightarrow> bool \<Rightarrow> model
     \<Rightarrow> (error + string list) \<times> model" where
  "set_electrolysis_data co2_electrolysis_efficiency' water_electrolysis_efficiency'
       electricity_source' energy_input_co' energy_input_h2' water_usage'
       electricity_carbon_intensity' silent m =
     (let resolved =
            (case electricity_carbon_intensity' of
               Some v \<Rightarrow> Inr (v, [])
             | None \<Rightarrow>
                 (case map_of electricity_carbon_intensities electricity_source' of
                    Some v \<Rightarrow> Inr (v, [])
                  | None \<Rightarrow>
                      bind_result (getitem electricity_carbon_intensities ''renewable'')
                        (\<lambda>v. Inr (v, if \<not> silent then [unrecognized_warning electricity_source']
                                      else []))))
      in case resolved of
           Inl e \<Rightarrow> (Inl e, m)
         | Inr (intensity, printed) \<Rightarrow>
             (Inr printed,
              m\<lparr>electrolysis_data := Some
                 \<lparr>co2_electrolysis_efficiency = co2_electrolysis_efficiency',
                  water_electrolysis_efficiency = water_electrolysis_efficiency',
                  electricity_source = electricity_source',
                  electricity_carbon_intensity = intensity,
                  energy_input_co = energy_input_co',
                  energy_input_h2 = energy_input_h2',
                  el_water_usage = water_usage'\<rparr>\<rparr>))"

subsection \<open>The calculation\<close>

text \<open>
  Every division of calculate_lca stands before its first write to the result table, so the
  values are computed first (any of the divisions may raise) and the four tables are stored
  together. The keys of each table are the ones the source writes, in its order.
\<close>

definition lca_values ::
  "carbon_capture \<Rightarrow> electrolysis \<Rightarrow> conversion \<Rightarrow> distribution \<Rightarrow> use_phase
     \<Rightarrow> error + lca_result" where
  "lca_values cc el conv dd up =
     bind_result (truediv 1 (energy_density up)) (\<lambda>normalization_factor.
     bind_result (truediv (co2_capture_rate cc) (capture_efficiency cc / 100)) (\<lambda>actual_co2_needed.
     let carbon_capture_ghg = cc_ghg_emissions cc * actual_co2_needed * normalization_factor;
         elec_intensity_mj = electricity_carbon_intensity el / 3.6;
         ratio = (case co_h2_ratio conv of None \<Rightarrow> 0.5 | Some v \<Rightarrow> v);
         total_syngas_needed =
           (case syngas_requirement conv of None \<Rightarrow> 2.5 | Some v \<Rightarrow> v) * normalization_factor
     in
     bind_result (truediv ratio (1 + ratio)) (\<lambda>co_share.
     bind_result (truediv 1 (1 + ratio)) (\<lambda>h2_share.
     let co_needed = total_syngas_needed * co_share;
         h2_needed = total_syngas_needed * h2_share
     in
     bind_result (truediv co_needed (co2_electrolysis_efficiency el / 100)) (\<lambda>actual_co_needed.
     bind_result (truediv h2_needed (water_electrolysis_efficiency el / 100)) (\<lambda>actual_h2_needed.
     let co_emissions = actual_co_needed * energy_input_co el * elec_intensity_mj;
         h2_emissions = actual_h2_needed * energy_input_h2 el * elec_intensity_mj;
         electrolysis_ghg = co_emissions + h2_emissions;
         conversion_ghg = conv_ghg_emissions conv * normalization_factor;
         distribution_ghg = dist_ghg_emissions dd * normalization_factor;
         use_phase_ghg = combustion_emissions up * normalization_factor;
         total_ghg = carbon_capture_ghg + electrolysis_ghg + conversion_ghg + distribution_ghg
                       + use_phase_ghg;
         carbon_capture_energy = (energy_requirement cc * actual_co2_needed) * normalization_factor;
         co_energy = actual_co_needed * energy_input_co el;
         h2_energy = actual_h2_needed * energy_input_h2 el;
         electrolysis_energy = co_energy + h2_energy;
         conversion_energy = conv_energy_input conv * normalization_factor;
         distribution_energy = dist_energy_input dd * normalization_factor;
         total_energy = carbon_capture_energy + electrolysis_energy + conversion_energy
                          + distribution_energy;
         carbon_capture_water = cc_water_usage cc * actual_co2_needed * normalization_factor;
         electrolysis_water = el_water_usage el * total_syngas_needed;
         conversion_water = conv_water_usage conv * normalization_factor
     in Inr
       \<lparr>ghg_emissions =
          [(''carbon_capture'', carbon_capture_ghg), (''electrolysis'', electrolysis_ghg),
           (''conversion'', conversion_ghg), (''distribution'', distribution_ghg),
           (''use_phase'', use_phase_ghg), (''total'', total_ghg)],
        energy_consumption =
          [(''carbon_capture'', carbon_capture_energy), (''electrolysis'', electrolysis_energy),
           (''conversion'', conversion_energy), (''distribution'', distribution_energy),
           (''total'', total_energy)],
        water_usage =
          [(''carbon_capture'', carbon_capture_water), (''electrolysis'', electrolysis_water),
           (''conversion'', conversion_water),
           (''total'', carbon_capture_water + electrolysis_water + conversion_water)],
        land_use = [(''total'', 0)]\<rparr>))))))"

definition calculate_lca :: "model \<Rightarrow> (error + lca_result) \<times> model" where
  "calculate_lca m =
     (case (carbon_capture_data m, electrolysis_data m, conversion_data m,
            distribution_data m, use_phase_data m) of
        (Some cc, Some el, Some conv, Some dd, Some up) \<Rightarrow>
          (case lca_values cc el conv dd up of
             Inl e \<Rightarrow> (Inl e, m)
           | Inr r \<Rightarrow> (Inr r, m\<lparr>results := r\<rparr>))
      | _ \<Rightarrow> (Inl ValueError_missing_data, m))"

text \<open>
  The reduction against fossil jet fuel. The source calls calculate_lca when the GHG table
  is empty and lets its exception pass.
\<close>

definition calculate_emission_reduction :: "real \<Rightarrow> model \<Rightarrow> (error + real) \<times> model" where
  "calculate_emission_reduction fossil_jet_emissions m =
     (case (if ghg_emissions (results m) = [] then calculate_lca m else (Inr (results m), m)) of
        (Inl e, m') \<Rightarrow> (Inl e, m')
      | (Inr _, m') \<Rightarrow>
          (bind_result (getitem (ghg_emissions (results m')) ''total'') (\<lambda>total.
             let saf_emissions = total * 1000 in
             bind_result (truediv (fossil_jet_emissions - saf_emissions) fossil_jet_emissions)
               (\<lambda>q. Inr (q * 100))),
           m'))"

subsection \<open>The sensitivity sweeps\<close>

text \<open>
  One row per scenario, in the order of the input list. The sweeps return a pandas
  DataFrame of the rows with one derived column, a quotient of two columns: pandas yields
  inf or NaN where the divisor is zero, which is \<open>None\<close> here. A DataFrame built from
  the empty list has no columns, so that reading the column raises KeyError.
\<close>

definition pandas_percentage :: "real \<Rightarrow> real \<Rightarrow> real option" where
  "pandas_percentage x y = (if y = 0 then None else Some (x / y * 100))"

record electricity_row =
  er_electricity_source :: string
  er_carbon_intensity :: real
  er_saf_emissions_mjbasis :: real
  er_emission_reduction :: real
  er_electrolysis_emissions :: real
  er_total_emissions :: real

definition electricity_row_of :: "string \<Rightarrow> model \<Rightarrow> error + electricity_row" where
  "electricity_row_of source m =
     bind_result (getitem (ghg_emissions (results m)) ''total'') (\<lambda>total.
     let saf_emissions = total * 1000;
         emission_reduction = (89.0 - saf_emissions) / 89.0 * 100
     in
     case electrolysis_data m of
       None \<Rightarrow> Inl (KeyError ''electricity_carbon_intensity'')
     | Some el \<Rightarrow>
         bind_result (getitem (ghg_emissions (results m)) ''electrolysis'') (\<lambda>electrolysis_ghg.
         Inr \<lparr>er_electricity_source = source,
              er_carbon_intensity = electricity_carbon_intensity el,
              er_saf_emissions_mjbasis = saf_emissions,
              er_emission_reduction = emission_reduction,
              er_electrolysis_emissions = electrolysis_ghg * 1000,
              er_total_emissions = saf_emissions\<rparr>))"

fun electricity_loop ::
  "real \<Rightarrow> real \<Rightarrow> string list \<Rightarrow> model \<Rightarrow> (error + electricity_row list) \<times> model" where
  "electricity_loop original_co original_h2 [] m = (Inr [], m)"
| "electricity_loop original_co original_h2 (source # sources) m =
     (case electrolysis_data m of
        None \<Rightarrow> (Inl (KeyError ''co2_electrolysis_efficiency''), m)
      | Some el \<Rightarrow>
          (case set_electrolysis_data (co2_electrolysis_efficiency el)
                  (water_electrolysis_efficiency el) source original_co original_h2
                  (el_water_usage el) None True m of
             (Inl e, m1) \<Rightarrow> (Inl e, m1)
           | (Inr _, m1) \<Rightarrow>
               (case calculate_lca m1 of
                  (Inl e, m2) \<Rightarrow> (Inl e, m2)
                | (Inr _, m2) \<Rightarrow>
                    (case electricity_row_of source m2 of
                       Inl e \<Rightarrow> (Inl e, m2)
                     | Inr row \<Rightarrow>
                         (case electricity_loop original_co original_h2 sources m2 of
                            (Inl e, m3) \<Rightarrow> (Inl e, m3)
                          | (Inr rows, m3) \<Rightarrow> (Inr (row # rows), m3))))))"

definition default_electricity_sources :: "string list" where
  "default_electricity_sources =
     [''renewable_mix'', ''grid_global'', ''grid_eu'', ''grid_us'', ''grid_china'',
      ''natural_gas'', ''coal'', ''solar'', ''wind'', ''hydro'', ''renewable'']"

definition analyze_electricity_sources ::
  "string list option \<Rightarrow> model \<Rightarrow> (error + (electricity_row \<times> real option) list) \<times> model" where
  "analyze_electricity_sources electricity_sources m =
     (let sources = (case electricity_sources of None \<Rightarrow> default_electricity_sources
                     | Some l \<Rightarrow> l);
          original_source = (case electrolysis_data m of None \<Rightarrow> ''renewable''
                             | Some el \<Rightarrow> electricity_source el);
          original_intensity = (case electrolysis_data m of None \<Rightarrow> 0.020
                                | Some el \<Rightarrow> electricity_carbon_intensity el);
          original_co = (case electrolysis_data m of None \<Rightarrow> 28.0
                         | Some el \<Rightarrow> energy_input_co el);
          original_h2 = (case electrolysis_data m of None \<Rightarrow> 55.0
                         | Some el \<Rightarrow> energy_input_h2 el)
      in case electricity_loop original_co original_h2 sources m of
           (Inl e, m1) \<Rightarrow> (Inl e, m1)
         | (Inr rows, m1) \<Rightarrow>
             (case electrolysis_data m1 of
                None \<Rightarrow> (Inl (KeyError ''co2_electrolysis_efficiency''), m1)
              | Some el \<Rightarrow>
                  (case set_electrolysis_data (co2_electrolysis_efficiency el)
                          (water_electrolysis_efficiency el) original_source original_co
                          original_h2 (el_water_usage el) (Some original_intensity) True m1 of
                     (Inl e, m2) \<Rightarrow> (Inl e, m2)
                   | (Inr _, m2) \<Rightarrow>
                       (case calculate_lca m2 of
                          (Inl e, m3) \<Rightarrow> (Inl e, m3)
                        | (Inr _, m3) \<Rightarrow>
                            if rows = [] then (Inl (KeyError ''electrolysis_emissions''), m3)
                            else (Inr (map (\<lambda>row. (row, pandas_percentage
                                               (er_electrolysis_emissions row)
                                               (er_total_emissions row))) rows),
                                  m3)))))"

record transport_row =
  tr_transport_mode :: string
  tr_emission_factor :: real
  tr_energy_factor :: real
  tr_transport_emissions :: real
  tr_saf_emissions_mjbasis :: real
  tr_emission_reduction :: real
  tr_total_emissions :: real

definition transport_row_of :: "string \<Rightarrow> model \<Rightarrow> error + transport_row" where
  "transport_row_of mode m =
     bind_result (getitem (ghg_emissions (results m)) ''total'') (\<lambda>total.
     let saf_emissions = total * 1000;
         emission_reduction = (89.0 - saf_emissions) / 89.0 * 100
     in
     case distribution_data m of
       None \<Rightarrow> Inl (KeyError ''emission_factor'')
     | Some dd \<Rightarrow>
         bind_result (getitem (ghg_emissions (results m)) ''distribution'') (\<lambda>distribution_ghg.
         Inr \<lparr>tr_transport_mode = mode,
              tr_emission_factor = emission_factor dd,
              tr_energy_factor = energy_factor dd,
              tr_transport_emissions = distribution_ghg * 1000,
              tr_saf_emissions_mjbasis = saf_emissions,
              tr_emission_reduction = emission_reduction,
              tr_total_emissions = saf_emissions\<rparr>))"

fun transport_loop ::
  "real \<Rightarrow> real \<Rightarrow> string list \<Rightarrow> model \<Rightarrow> (error + transport_row list) \<times> model" where
  "transport_loop base_distance original_density [] m = (Inr [], m)"
| "transport_loop base_distance original_density (mode # modes) m =
     (case set_distribution_data base_distance mode original_density m of
        (Inl e, m1) \<Rightarrow> (Inl e, m1)
      | (Inr _, m1) \<Rightarrow>
          (case calculate_lca m1 of
             (Inl e, m2) \<Rightarrow> (Inl e, m2)
           | (Inr _, m2) \<Rightarrow>
               (case transport_row_of mode m2 of
                  Inl e \<Rightarrow> (Inl e, m2)
                | Inr row \<Rightarrow>
                    (case transport_loop base_distance original_density modes m2 of
                       (Inl e, m3) \<Rightarrow> (Inl e, m3)
                     | (Inr rows, m3) \<Rightarrow> (Inr (row # rows), m3)))))"

definition default_transport_modes :: "string list" where
  "default_transport_modes = [''truck'', ''rail'', ''ship'', ''barge'', ''pipeline'']"

definition analyze_transport_modes ::
  "string list option \<Rightarrow> real \<Rightarrow> model
     \<Rightarrow> (error + (transport_row \<times> real option) list) \<times> model" where
  "analyze_transport_modes transport_modes base_distance m =
     (let modes = (case transport_modes of None \<Rightarrow> default_transport_modes | Some l \<Rightarrow> l);
          original_distance = (case distribution_data m of None \<Rightarrow> 500
                               | Some dd \<Rightarrow> transport_distance dd);
          original_mode = (case distribution_data m of None \<Rightarrow> ''truck''
                           | Some dd \<Rightarrow> transport_mode dd);
          original_density = (case distribution_data m of None \<Rightarrow> 0.8
                              | Some dd \<Rightarrow> fuel_density dd)
      in case transport_loop base_distance original_density modes m of
           (Inl e, m1) \<Rightarrow> (Inl e, m1)
         | (Inr rows, m1) \<Rightarrow>
             (case set_distribution_data original_distance original_mode original_density m1 of
                (Inl e, m2) \<Rightarrow> (Inl e, m2)
              | (Inr _, m2) \<Rightarrow>
                  (case calculate_lca m2 of
                     (Inl e, m3) \<Rightarrow> (Inl e, m3)
                   | (Inr _, m3) \<Rightarrow>
                       if rows = [] then (Inl (KeyError ''transport_emissions''), m3)
                       else (Inr (map (\<lambda>row. (row, pandas_percentage
                                          (tr_transport_emissions row)
                                          (tr_total_emissions row))) rows),
                             m3))))"

subsection \<open>The documented example\<close>

text \<open>
  The parameter set of the script at the end of LCA_calculation.py, stored through the
  setters in the script's order. The parameters that no emission depends on are left open.
\<close>

definition documented_example ::
  "real \<Rightarrow> real \<Rightarrow> real \<Rightarrow> string \<Rightarrow> real \<Rightarrow> real \<Rightarrow> real \<Rightarrow> model" where
  "documented_example cc_energy cc_water el_water tech conv_efficiency conv_water density =
     snd (set_distribution_data 500.0 ''truck'' density
       (set_conversion_data tech conv_efficiency 0.2 25.0 conv_water (Some 2.13) (Some 0.923)
         (snd (set_electrolysis_data 65.0 75.0 ''wind'' 28.0 55.0 el_water None False
           (set_carbon_capture_data 80.0 cc_energy 0.08 cc_water 3.1
             (set_use_phase_data 0.0 43.0 init_model))))))"

definition script_example :: model where
  "script_example = documented_example 20.0 5.0 20.0 ''Fischer-Tropsch'' 0.65 5.0 0.8"


subsection \<open>The divisors of the calculation\<close>

text \<open>
  calculate_lca divides by the energy density, by the capture efficiency, by one plus the
  CO:H2 ratio (whose default is 0.5) and by the two electrolysis efficiencies.
\<close>

definition ratio_of :: "conversion \<Rightarrow> real" where
  "ratio_of conv = (case co_h2_ratio conv of None \<Rightarrow> 0.5 | Some v \<Rightarrow> v)"

definition divisors_nonzero ::
  "carbon_capture \<Rightarrow> electrolysis \<Rightarrow> conversion \<Rightarrow> use_phase \<Rightarrow> bool" where
  "divisors_nonzero cc el conv up \<longleftrightarrow>
     energy_density up \<noteq> 0 \<and> capture_efficiency cc \<noteq> 0 \<and> 1 + ratio_of conv \<noteq> 0
     \<and> co2_electrolysis_efficiency el \<noteq> 0 \<and> water_electrolysis_efficiency el \<noteq> 0"

subsection \<open>Predicates used in the statements\<close>

text \<open>
  The entry "total" of a table is the sum of its other entries.
\<close>

definition total_is_sum :: "pydict \<Rightarrow> bool" where
  "total_is_sum d \<longleftrightarrow>
     map_of d ''total'' = Some (sum_list (map snd (filter (\<lambda>kv. fst kv \<noteq> ''total'') d)))"

text \<open>
  The distribution group is written by set_distribution_data only, which derives four of
  its seven entries from the other three: every populated distribution group of a model
  satisfies \<open>stored_by_setter\<close>.
\<close>

definition stored_by_setter :: "distribution \<Rightarrow> bool" where
  "stored_by_setter dd \<longleftrightarrow>
     map_of emission_factors (transport_mode dd) = Some (emission_factor dd)
     \<and> map_of energy_factors (transport_mode dd) = Some (energy_factor dd)
     \<and> dist_ghg_emissions dd = emission_factor dd * 0.001 * transport_distance dd
     \<and> dist_energy_input dd = energy_factor dd * 0.001 * transport_distance dd"

text \<open>Two electrolysis groups that differ at most in the electricity source and its intensity.\<close>

definition same_but_source :: "electrolysis \<Rightarrow> electrolysis \<Rightarrow> bool" where
  "same_but_source el el' \<longleftrightarrow>
     co2_electrolysis_efficiency el' = co2_electrolysis_efficiency el
     \<and> water_electrolysis_efficiency el' = water_electrolysis_efficiency el
     \<and> energy_input_co el' = energy_input_co el
     \<and> energy_input_h2 el' = energy_input_h2 el
     \<and> el_water_usage el' = el_water_usage el"

section \<open>Properties\<close>

subsection \<open>Divisions and the calculation\<close>

lemma bind_result_simps [simp]:
  "bind_result (Inl e) f = Inl e"
  "bind_result (Inr v) f = f v"
  by (simp_all add: bind_result_def)

lemma truediv_simps [simp]:
  "truediv x 0 = Inl ZeroDivisionError"
  "y \<noteq> 0 \<Longrightarrow> truediv x y = Inr (x / y)"
  by (simp_all add: truediv_def)

lemma lca_values_raises:
  "\<not> divisors_nonzero cc el conv up \<Longrightarrow> lca_values cc el conv dd up = Inl ZeroDivisionError"
  unfolding lca_values_def divisors_nonzero_def ratio_of_def
  by (auto simp: truediv_def bind_result_def Let_def)

lemma lca_values_returns:
  "divisors_nonzero cc el conv up \<Longrightarrow> \<exists>r. lca_values cc el conv dd up = Inr r"
  unfolding lca_values_def divisors_nonzero_def ratio_of_def
  by (simp add: Let_def)


lemma lca_values_Inr:
  "lca_values cc el conv dd up = Inr r \<Longrightarrow> divisors_nonzero cc el conv up"
  using lca_values_raises [of cc el conv up dd]
  by (cases "divisors_nonzero cc el conv up") auto

lemma calculate_lca_populated:
  assumes "carbon_capture_data m = Some cc" "electrolysis_data m = Some el"
    "conversion_data m = Some conv" "distribution_data m = Some dd" "use_phase_data m = Some up"
  shows "calculate_lca m =
           (case lca_values cc el conv dd up of
              Inl e \<Rightarrow> (Inl e, m) | Inr r \<Rightarrow> (Inr r, m\<lparr>results := r\<rparr>))"
  using assms by (simp add: calculate_lca_def)


lemma calculate_lca_Inr:
  assumes "calculate_lca m = (Inr r, m')"
  shows "\<exists>cc el conv dd up. carbon_capture_data m = Some cc \<and> electrolysis_data m = Some el
     \<and> conversion_data m = Some conv \<and> distribution_data m = Some dd
     \<and> use_phase_data m = Some up
     \<and> lca_values cc el conv dd up = Inr r \<and> m' = m\<lparr>results := r\<rparr>"
  using assms by (auto simp: calculate_lca_def split: option.splits sum.splits)

lemma calculate_lca_Inl:
  assumes "calculate_lca m = (Inl e, m')"
  shows "m' = m"
  using assms by (auto simp: calculate_lca_def split: option.splits sum.splits)

lemma lca_values_ghg:
  assumes "lca_values cc el conv dd up = Inr r"
  shows "\<exists>c e v. ghg_emissions r =
           [(''carbon_capture'', c), (''electrolysis'', e), (''conversion'', v),
            (''distribution'', dist_ghg_emissions dd * (1 / energy_density up)),
            (''use_phase'', combustion_emissions up * (1 / energy_density up)),
            (''total'', c + e + v + dist_ghg_emissions dd * (1 / energy_density up)
                          + combustion_emissions up * (1 / energy_density up))]"
proof -
  have d: "divisors_nonzero cc el conv up" using assms by (rule lca_values_Inr)
  show ?thesis
    using assms d unfolding lca_values_def divisors_nonzero_def ratio_of_def
    by (auto simp: Let_def)
qed

lemma lca_values_shape:
  assumes "lca_values cc el conv dd up = Inr r"
  shows "map fst (ghg_emissions r) =
           [''carbon_capture'', ''electrolysis'', ''conversion'', ''distribution'',
            ''use_phase'', ''total'']"
    and "map fst (energy_consumption r) =
           [''carbon_capture'', ''electrolysis'', ''conversion'', ''distribution'', ''total'']"
    and "map fst (water_usage r) =
           [''carbon_capture'', ''electrolysis'', ''conversion'', ''total'']"
    and "land_use r = [(''total'', 0)]"
    and "total_is_sum (ghg_emissions r)"
    and "total_is_sum (energy_consumption r)"
    and "total_is_sum (water_usage r)"
    and "total_is_sum (land_use r)"
proof -
  have d: "divisors_nonzero cc el conv up" using assms by (rule lca_values_Inr)
  have r: "r = projr (lca_values cc el conv dd up)" using assms by simp
  show "map fst (ghg_emissions r) =
           [''carbon_capture'', ''electrolysis'', ''conversion'', ''distribution'',
            ''use_phase'', ''total'']"
    and "map fst (energy_consumption r) =
           [''carbon_capture'', ''electrolysis'', ''conversion'', ''distribution'', ''total'']"
    and "map fst (water_usage r) =
           [''carbon_capture'', ''electrolysis'', ''conversion'', ''total'']"
    and "land_use r = [(''total'', 0)]"
    and "total_is_sum (ghg_emissions r)"
    and "total_is_sum (energy_consumption r)"
    and "total_is_sum (water_usage r)"
    and "total_is_sum (land_use r)"
    using d unfolding r lca_values_def divisors_nonzero_def ratio_of_def total_is_sum_def
    by (simp_all add: Let_def)
qed

lemma getitem_ghg:
  assumes "lca_values cc el conv dd up = Inr r"
  shows "\<exists>t e x. getitem (ghg_emissions r) ''total'' = Inr t
    \<and> getitem (ghg_emissions r) ''electrolysis'' = Inr e
    \<and> getitem (ghg_emissions r) ''distribution'' = Inr x"
  using lca_values_ghg [OF assms] by (auto simp: getitem_def)

subsection \<open>The setters\<close>

lemma factor_keys:
  "set (map fst emission_factors) = {''truck'', ''rail'', ''ship'', ''barge'', ''pipeline''}"
  "set (map fst energy_factors) = {''truck'', ''rail'', ''ship'', ''barge'', ''pipeline''}"
  by (simp_all add: emission_factors_def energy_factors_def)

lemma known_mode_factors:
  assumes "k \<in> {''truck'', ''rail'', ''ship'', ''barge'', ''pipeline''}"
  shows "\<exists>ef nf. map_of emission_factors k = Some ef \<and> map_of energy_factors k = Some nf"
proof -
  have "map_of emission_factors k \<noteq> None" and "map_of energy_factors k \<noteq> None"
    using assms unfolding map_of_eq_None_iff set_map [symmetric] factor_keys by simp_all
  then show ?thesis by auto
qed

lemma set_distribution_data_stores:
  assumes "map_of emission_factors transport_mode' = Some ef"
    and "map_of energy_factors transport_mode' = Some nf"
  shows "set_distribution_data transport_distance' transport_mode' fuel_density' m =
        (Inr (), m\<lparr>distribution_data := Some
           \<lparr>transport_distance = transport_distance', transport_mode = transport_mode',
            fuel_density = fuel_density', emission_factor = ef, energy_factor = nf,
            dist_ghg_emissions = ef * 0.001 * transport_distance',
            dist_energy_input = nf * 0.001 * transport_distance'\<rparr>\<rparr>)"
  using assms by (simp add: set_distribution_data_def Let_def)

lemma set_distribution_data_stored_by_setter:
  assumes "set_distribution_data transport_distance' transport_mode' fuel_density' m = (Inr (), m')"
  shows "\<exists>dd. distribution_data m' = Some dd \<and> stored_by_setter dd"
  using assms
  by (auto simp: set_distribution_data_def stored_by_setter_def Let_def split: option.splits)

lemma stored_by_setter_record:
  assumes "stored_by_setter dd"
  shows "\<lparr>transport_distance = transport_distance dd, transport_mode = transport_mode dd,
          fuel_density = fuel_density dd, emission_factor = emission_factor dd,
          energy_factor = energy_factor dd,
          dist_ghg_emissions = emission_factor dd * 0.001 * transport_distance dd,
          dist_energy_input = energy_factor dd * 0.001 * transport_distance dd\<rparr> = dd"
  using assms by (cases dd) (simp add: stored_by_setter_def)

lemma set_electrolysis_data_explicit:
  "set_electrolysis_data a b src co h2 w (Some i) silent m =
     (Inr [], m\<lparr>electrolysis_data := Some
        \<lparr>co2_electrolysis_efficiency = a, water_electrolysis_efficiency = b,
         electricity_source = src, electricity_carbon_intensity = i,
         energy_input_co = co, energy_input_h2 = h2, el_water_usage = w\<rparr>\<rparr>)"
  by (simp add: set_electrolysis_data_def)

lemma set_electrolysis_data_lookup:
  "\<exists>i. set_electrolysis_data a b src co h2 w None True m =
     (Inr [], m\<lparr>electrolysis_data := Some
        \<lparr>co2_electrolysis_efficiency = a, water_electrolysis_efficiency = b,
         electricity_source = src, electricity_carbon_intensity = i,
         energy_input_co = co, energy_input_h2 = h2, el_water_usage = w\<rparr>\<rparr>)"
proof (cases "map_of electricity_carbon_intensities src")
  case None
  have "getitem electricity_carbon_intensities ''renewable'' = Inr 0.020"
    by (simp add: getitem_def electricity_carbon_intensities_def)
  with None have "set_electrolysis_data a b src co h2 w None True m =
     (Inr [], m\<lparr>electrolysis_data := Some
        \<lparr>co2_electrolysis_efficiency = a, water_electrolysis_efficiency = b,
         electricity_source = src, electricity_carbon_intensity = 0.020,
         energy_input_co = co, energy_input_h2 = h2, el_water_usage = w\<rparr>\<rparr>)"
    by (simp add: set_electrolysis_data_def)
  then show ?thesis ..
next
  case (Some v)
  then have "set_electrolysis_data a b src co h2 w None True m =
     (Inr [], m\<lparr>electrolysis_data := Some
        \<lparr>co2_electrolysis_efficiency = a, water_electrolysis_efficiency = b,
         electricity_source = src, electricity_carbon_intensity = v,
         energy_input_co = co, energy_input_h2 = h2, el_water_usage = w\<rparr>\<rparr>)"
    by (simp add: set_electrolysis_data_def)
  then show ?thesis ..
qed

lemma divisors_nonzero_source:
  "same_but_source el el' \<Longrightarrow> divisors_nonzero cc el conv up \<Longrightarrow> divisors_nonzero cc el' conv up"
  by (simp add: divisors_nonzero_def same_but_source_def)

subsection \<open>The sweeps\<close>

lemma electricity_row_of_returns:
  assumes "lca_values cc el conv dd up = Inr (results m)" and "electrolysis_data m = Some el'"
  shows "\<exists>row. electricity_row_of source m = Inr row"
  using getitem_ghg [OF assms(1)] assms(2) by (auto simp: electricity_row_of_def Let_def)

lemma transport_row_of_returns:
  assumes "lca_values cc el conv dd up = Inr (results m)" and "distribution_data m = Some dd'"
  shows "\<exists>row. transport_row_of mode m = Inr row"
  using getitem_ghg [OF assms(1)] assms(2) by (auto simp: transport_row_of_def Let_def)

lemma electricity_loop_completes:
  assumes "carbon_capture_data m = Some cc" and "electrolysis_data m = Some el"
    and "conversion_data m = Some conv" and "distribution_data m = Some dd"
    and "use_phase_data m = Some up"
    and "divisors_nonzero cc el conv up"
    and "energy_input_co el = co" and "energy_input_h2 el = h2"
  shows "\<exists>rows el' r. electricity_loop co h2 sources m
            = (Inr rows, m\<lparr>electrolysis_data := Some el', results := r\<rparr>)
          \<and> same_but_source el el' \<and> length rows = length sources"
  using assms
proof (induction sources arbitrary: m el)
  case Nil
  have "m = m\<lparr>electrolysis_data := Some el, results := results m\<rparr>"
    using Nil.prems(2) by (cases m) simp
  then have "electricity_loop co h2 [] m
      = (Inr [], m\<lparr>electrolysis_data := Some el, results := results m\<rparr>)" by simp
  moreover have "same_but_source el el" by (simp add: same_but_source_def)
  ultimately show ?case
    by (intro exI [of _ "[]"] exI [of _ el] exI [of _ "results m"]) simp
next
  case (Cons source sources)
  obtain i where s: "set_electrolysis_data (co2_electrolysis_efficiency el)
      (water_electrolysis_efficiency el) source co h2 (el_water_usage el) None True m =
     (Inr [], m\<lparr>electrolysis_data := Some
        \<lparr>co2_electrolysis_efficiency = co2_electrolysis_efficiency el,
         water_electrolysis_efficiency = water_electrolysis_efficiency el,
         electricity_source = source, electricity_carbon_intensity = i,
         energy_input_co = co, energy_input_h2 = h2, el_water_usage = el_water_usage el\<rparr>\<rparr>)"
    using set_electrolysis_data_lookup by blast
  let ?el1 = "\<lparr>co2_electrolysis_efficiency = co2_electrolysis_efficiency el,
         water_electrolysis_efficiency = water_electrolysis_efficiency el,
         electricity_source = source, electricity_carbon_intensity = i,
         energy_input_co = co, energy_input_h2 = h2, el_water_usage = el_water_usage el\<rparr>"
  let ?m1 = "m\<lparr>electrolysis_data := Some ?el1\<rparr>"
  have same: "same_but_source el ?el1"
    using Cons.prems(7,8) by (simp add: same_but_source_def)
  have d1: "divisors_nonzero cc ?el1 conv up"
    using same Cons.prems(6) by (rule divisors_nonzero_source)
  obtain r where v: "lca_values cc ?el1 conv dd up = Inr r"
    using lca_values_returns [OF d1] by blast
  let ?m2 = "?m1\<lparr>results := r\<rparr>"
  have c: "calculate_lca ?m1 = (Inr r, ?m2)"
    using calculate_lca_populated [of ?m1 cc ?el1 conv dd up] Cons.prems(1,3,4,5) v by simp
  obtain row where row: "electricity_row_of source ?m2 = Inr row"
    using electricity_row_of_returns [of cc ?el1 conv dd up ?m2 ?el1 source] v by auto
  have "\<exists>rows el' r'. electricity_loop co h2 sources ?m2
            = (Inr rows, ?m2\<lparr>electrolysis_data := Some el', results := r'\<rparr>)
          \<and> same_but_source ?el1 el' \<and> length rows = length sources"
    by (rule Cons.IH) (simp_all add: Cons.prems(1,3,4,5) d1)
  then obtain rows el' r' where l: "electricity_loop co h2 sources ?m2
            = (Inr rows, ?m2\<lparr>electrolysis_data := Some el', results := r'\<rparr>)"
    and same': "same_but_source ?el1 el'" and len: "length rows = length sources"
    by blast
  have "electricity_loop co h2 (source # sources) m
      = (Inr (row # rows), m\<lparr>electrolysis_data := Some el', results := r'\<rparr>)"
    using Cons.prems(2) s c row l by simp
  moreover have "same_but_source el el'"
    using same same' by (simp add: same_but_source_def)
  ultimately show ?case using len by (intro exI [of _ "row # rows"] exI [of _ el'] exI [of _ r']) simp
qed

lemma transport_loop_completes:
  assumes "carbon_capture_data m = Some cc" and "electrolysis_data m = Some el"
    and "conversion_data m = Some conv" and "distribution_data m = Some dd"
    and "use_phase_data m = Some up"
    and "divisors_nonzero cc el conv up"
    and "set modes \<subseteq> {''truck'', ''rail'', ''ship'', ''barge'', ''pipeline''}"
  shows "\<exists>rows dd' r. transport_loop base_distance density modes m
            = (Inr rows, m\<lparr>distribution_data := Some dd', results := r\<rparr>)
          \<and> length rows = length modes"
  using assms
proof (induction modes arbitrary: m dd)
  case Nil
  have "m = m\<lparr>distribution_data := Some dd, results := results m\<rparr>"
    using Nil.prems(4) by (cases m) simp
  then have "transport_loop base_distance density [] m
      = (Inr [], m\<lparr>distribution_data := Some dd, results := results m\<rparr>)" by simp
  then show ?case
    by (intro exI [of _ "[]"] exI [of _ dd] exI [of _ "results m"]) simp
next
  case (Cons mode modes)
  have k: "mode \<in> {''truck'', ''rail'', ''ship'', ''barge'', ''pipeline''}"
    and ks: "set modes \<subseteq> {''truck'', ''rail'', ''ship'', ''barge'', ''pipeline''}"
    using Cons.prems(7) by simp_all
  obtain ef nf where ef: "map_of emission_factors mode = Some ef"
    and nf: "map_of energy_factors mode = Some nf"
    using known_mode_factors [OF k] by blast
  let ?dd1 = "\<lparr>transport_distance = base_distance, transport_mode = mode,
            fuel_density = density, emission_factor = ef, energy_factor = nf,
            dist_ghg_emissions = ef * 0.001 * base_distance,
            dist_energy_input = nf * 0.001 * base_distance\<rparr>"
  let ?m1 = "m\<lparr>distribution_data := Some ?dd1\<rparr>"
  note s = set_distribution_data_stores [OF ef nf, of base_distance density m]
  obtain r where v: "lca_values cc el conv ?dd1 up = Inr r"
    using lca_values_returns [OF Cons.prems(6)] by blast
  let ?m2 = "?m1\<lparr>results := r\<rparr>"
  have c: "calculate_lca ?m1 = (Inr r, ?m2)"
    using calculate_lca_populated [of ?m1 cc el conv ?dd1 up] Cons.prems(1,2,3,5) v by simp
  obtain row where row: "transport_row_of mode ?m2 = Inr row"
    using transport_row_of_returns [of cc el conv ?dd1 up ?m2 ?dd1 mode] v by auto
  have "\<exists>rows dd' r'. transport_loop base_distance density modes ?m2
            = (Inr rows, ?m2\<lparr>distribution_data := Some dd', results := r'\<rparr>)
          \<and> length rows = length modes"
    by (rule Cons.IH [where dd = ?dd1]) (simp_all add: Cons.prems(1,2,3,5,6) ks)
  then obtain rows dd' r' where l: "transport_loop base_distance density modes ?m2
            = (Inr rows, ?m2\<lparr>distribution_data := Some dd', results := r'\<rparr>)"
    and len: "length rows = length modes"
    by blast
  have "transport_loop base_distance density (mode # modes) m
      = (Inr (row # rows), m\<lparr>distribution_data := Some dd', results := r'\<rparr>)"
    using s c row l by simp
  then show ?case using len
    by (intro exI [of _ "row # rows"] exI [of _ dd'] exI [of _ r']) simp
qed

lemma analyze_electricity_sources_restores:
  assumes g: "carbon_capture_data m = Some cc" "electrolysis_data m = Some el"
    "conversion_data m = Some conv" "distribution_data m = Some dd" "use_phase_data m = Some up"
    and v: "lca_values cc el conv dd up = Inr r"
  shows "snd (analyze_electricity_sources electricity_sources m) = m\<lparr>results := r\<rparr>
    \<and> (electricity_sources \<noteq> Some [] \<longrightarrow>
         (\<exists>rows. fst (analyze_electricity_sources electricity_sources m) = Inr rows))"
proof -
  define sources where
    "sources = (case electricity_sources of None \<Rightarrow> default_electricity_sources | Some l \<Rightarrow> l)"
  have d: "divisors_nonzero cc el conv up" using v by (rule lca_values_Inr)
  obtain rows el' r' where
    l: "electricity_loop (energy_input_co el) (energy_input_h2 el) sources m
            = (Inr rows, m\<lparr>electrolysis_data := Some el', results := r'\<rparr>)"
    and same: "same_but_source el el'" and len: "length rows = length sources"
    using electricity_loop_completes [OF g d refl refl] by blast
  let ?m1 = "m\<lparr>electrolysis_data := Some el', results := r'\<rparr>"
  have el: "\<lparr>co2_electrolysis_efficiency = co2_electrolysis_efficiency el',
         water_electrolysis_efficiency = water_electrolysis_efficiency el',
         electricity_source = electricity_source el,
         electricity_carbon_intensity = electricity_carbon_intensity el,
         energy_input_co = energy_input_co el, energy_input_h2 = energy_input_h2 el,
         el_water_usage = el_water_usage el'\<rparr> = el"
    using same by (cases el) (simp add: same_but_source_def)
  have m2: "?m1\<lparr>electrolysis_data := Some el\<rparr> = m\<lparr>results := r'\<rparr>"
    using g(2) by (cases m) simp
  have s: "set_electrolysis_data (co2_electrolysis_efficiency el')
      (water_electrolysis_efficiency el') (electricity_source el) (energy_input_co el)
      (energy_input_h2 el) (el_water_usage el') (Some (electricity_carbon_intensity el)) True
      ?m1 = (Inr [], m\<lparr>results := r'\<rparr>)"
    unfolding set_electrolysis_data_explicit el m2 ..
  have c: "calculate_lca (m\<lparr>results := r'\<rparr>) = (Inr r, m\<lparr>results := r\<rparr>)"
    using calculate_lca_populated [of "m\<lparr>results := r'\<rparr>" cc el conv dd up] g v by simp
  have out: "analyze_electricity_sources electricity_sources m =
      (if rows = [] then (Inl (KeyError ''electrolysis_emissions''), m\<lparr>results := r\<rparr>)
       else (Inr (map (\<lambda>row. (row, pandas_percentage (er_electrolysis_emissions row)
                                    (er_total_emissions row))) rows),
             m\<lparr>results := r\<rparr>))"
    using l s c g(2) unfolding analyze_electricity_sources_def sources_def [symmetric]
    by (simp add: Let_def)
  have "electricity_sources \<noteq> Some [] \<Longrightarrow> rows \<noteq> []"
    using len unfolding sources_def
    by (cases electricity_sources) (auto simp: default_electricity_sources_def)
  with out show ?thesis by auto
qed

lemma analyze_transport_modes_restores:
  assumes g: "carbon_capture_data m = Some cc" "electrolysis_data m = Some el"
    "conversion_data m = Some conv" "distribution_data m = Some dd" "use_phase_data m = Some up"
    and v: "lca_values cc el conv dd up = Inr r"
    and w: "stored_by_setter dd"
    and k: "case transport_modes of None \<Rightarrow> True
            | Some l \<Rightarrow> set l \<subseteq> {''truck'', ''rail'', ''ship'', ''barge'', ''pipeline''}"
  shows "snd (analyze_transport_modes transport_modes base_distance m) = m\<lparr>results := r\<rparr>
    \<and> (transport_modes \<noteq> Some [] \<longrightarrow>
         (\<exists>rows. fst (analyze_transport_modes transport_modes base_distance m) = Inr rows))"
proof -
  define modes where
    "modes = (case transport_modes of None \<Rightarrow> default_transport_modes | Some l \<Rightarrow> l)"
  have ks: "set modes \<subseteq> {''truck'', ''rail'', ''ship'', ''barge'', ''pipeline''}"
    using k unfolding modes_def
    by (cases transport_modes) (simp_all add: default_transport_modes_def)
  have d: "divisors_nonzero cc el conv up" using v by (rule lca_values_Inr)
  obtain rows dd' r' where
    l: "transport_loop base_distance (fuel_density dd) modes m
            = (Inr rows, m\<lparr>distribution_data := Some dd', results := r'\<rparr>)"
    and len: "length rows = length modes"
    using transport_loop_completes [OF g d ks] by blast
  let ?m1 = "m\<lparr>distribution_data := Some dd', results := r'\<rparr>"
  have m2: "?m1\<lparr>distribution_data := Some dd\<rparr> = m\<lparr>results := r'\<rparr>"
    using g(4) by (cases m) simp
  have s: "set_distribution_data (transport_distance dd) (transport_mode dd) (fuel_density dd) ?m1
      = (Inr (), m\<lparr>results := r'\<rparr>)"
    using w set_distribution_data_stores [of "transport_mode dd" "emission_factor dd"
        "energy_factor dd" "transport_distance dd" "fuel_density dd" ?m1]
    unfolding stored_by_setter_record [OF w] m2 by (simp add: stored_by_setter_def)
  have c: "calculate_lca (m\<lparr>results := r'\<rparr>) = (Inr r, m\<lparr>results := r\<rparr>)"
    using calculate_lca_populated [of "m\<lparr>results := r'\<rparr>" cc el conv dd up] g v by simp
  have out: "analyze_transport_modes transport_modes base_distance m =
      (if rows = [] then (Inl (KeyError ''transport_emissions''), m\<lparr>results := r\<rparr>)
       else (Inr (map (\<lambda>row. (row, pandas_percentage (tr_transport_emissions row)
                                    (tr_total_emissions row))) rows),
             m\<lparr>results := r\<rparr>))"
    using l s c g(4) unfolding analyze_transport_modes_def modes_def [symmetric]
    by (simp add: Let_def)
  have "transport_modes \<noteq> Some [] \<Longrightarrow> rows \<noteq> []"
    using len unfolding modes_def
    by (cases transport_modes) (auto simp: default_transport_modes_def)
  with out show ?thesis by auto
qed

subsection \<open>The documented example\<close>

lemma script_example_groups:
  "carbon_capture_data script_example = Some
     \<lparr>capture_efficiency = 80, energy_requirement = 20, cc_ghg_emissions = 0.08,
      cc_water_usage = 5, co2_capture_rate = 3.1\<rparr>"
  "electrolysis_data script_example = Some
     \<lparr>co2_electrolysis_efficiency = 65, water_electrolysis_efficiency = 75,
      electricity_source = ''wind'', electricity_carbon_intensity = 0.011,
      energy_input_co = 28, energy_input_h2 = 55, el_water_usage = 20\<rparr>"
  "conversion_data script_example = Some
     \<lparr>technology = ''Fischer-Tropsch'', efficiency = 0.65, conv_ghg_emissions = 0.2,
      conv_energy_input = 25, conv_water_usage = 5, syngas_requirement = Some 2.13,
      co_h2_ratio = Some 0.923\<rparr>"
  "distribution_data script_example = Some
     \<lparr>transport_distance = 500, transport_mode = ''truck'', fuel_density = 0.8,
      emission_factor = 0.062, energy_factor = 2.1, dist_ghg_emissions = 0.031,
      dist_energy_input = 1.05\<rparr>"
  "use_phase_data script_example = Some \<lparr>combustion_emissions = 0, energy_density = 43\<rparr>"
  "results script_example =
     \<lparr>ghg_emissions = [], energy_consumption = [], water_usage = [], land_use = []\<rparr>"
  by (simp_all add: script_example_def documented_example_def set_distribution_data_def
      set_conversion_data_def set_electrolysis_data_def set_carbon_capture_data_def
      set_use_phase_data_def init_model_def emission_factors_def energy_factors_def
      electricity_carbon_intensities_def Let_def)

lemma script_example_stored_by_setter:
  "stored_by_setter
     \<lparr>transport_distance = 500, transport_mode = ''truck'', fuel_density = 0.8,
      emission_factor = 0.062, energy_factor = 2.1, dist_ghg_emissions = 0.031,
      dist_energy_input = 1.05\<rparr>"
  by (simp add: stored_by_setter_def emission_factors_def energy_factors_def)

lemma script_example_returns:
  "\<exists>r. calculate_lca script_example = (Inr r, script_example\<lparr>results := r\<rparr>)"
proof -
  have "divisors_nonzero
     \<lparr>capture_efficiency = 80, energy_requirement = 20, cc_ghg_emissions = 0.08,
      cc_water_usage = 5, co2_capture_rate = 3.1\<rparr>
     \<lparr>co2_electrolysis_efficiency = 65, water_electrolysis_efficiency = 75,
      electricity_source = ''wind'', electricity_carbon_intensity = 0.011,
      energy_input_co = 28, energy_input_h2 = 55, el_water_usage = 20\<rparr>
     \<lparr>technology = ''Fischer-Tropsch'', efficiency = 0.65, conv_ghg_emissions = 0.2,
      conv_energy_input = 25, conv_water_usage = 5, syngas_requirement = Some 2.13,
      co_h2_ratio = Some 0.923\<rparr>
     \<lparr>combustion_emissions = 0, energy_density = 43\<rparr>"
    by (simp add: divisors_nonzero_def ratio_of_def)
  then obtain r where "lca_values
     \<lparr>capture_efficiency = 80, energy_requirement = 20, cc_ghg_emissions = 0.08,
      cc_water_usage = 5, co2_capture_rate = 3.1\<rparr>
     \<lparr>co2_electrolysis_efficiency = 65, water_electrolysis_efficiency = 75,
      electricity_source = ''wind'', electricity_carbon_intensity = 0.011,
      energy_input_co = 28, energy_input_h2 = 55, el_water_usage = 20\<rparr>
     \<lparr>technology = ''Fischer-Tropsch'', efficiency = 0.65, conv_ghg_emissions = 0.2,
      conv_energy_input = 25, conv_water_usage = 5, syngas_requirement = Some 2.13,
      co_h2_ratio = Some 0.923\<rparr>
     \<lparr>transport_distance = 500, transport_mode = ''truck'', fuel_density = 0.8,
      emission_factor = 0.062, energy_factor = 2.1, dist_ghg_emissions = 0.031,
      dist_energy_input = 1.05\<rparr>
     \<lparr>combustion_emissions = 0, energy_density = 43\<rparr> = Inr r"
    using lca_values_returns by blast
  then show ?thesis
    by (simp add: calculate_lca_populated [OF script_example_groups(1-5)])
qed


lemma example_total_value:
  "\<exists>r m'. calculate_lca
       (documented_example cc_energy cc_water el_water tech conv_efficiency conv_water density)
         = (Inr r, m')
     \<and> map_of (ghg_emissions r) ''total'' = Some (371803 / 17307000)"
  by (simp add: documented_example_def calculate_lca_def lca_values_def set_distribution_data_def
      set_conversion_data_def set_electrolysis_data_def set_carbon_capture_data_def
      set_use_phase_data_def init_model_def emission_factors_def energy_factors_def
      electricity_carbon_intensities_def Let_def)

subsection \<open>The claims\<close>

text \<open>
  C1. For the documented example parameter set (wind electricity resolved through the lookup
  table, truck transport over 500 km), whatever the parameters the claim leaves open,
  calculate_lca returns a result whose total GHG intensity, in g CO2e/MJ, lies between 15
  and 30. Over the reals the total is 371803 / 17307000 kg CO2e/MJ, about 21.48 g.
\<close>

theorem example_total_in_range:
  "\<exists>r m' total. calculate_lca
       (documented_example cc_energy cc_water el_water tech conv_efficiency conv_water density)
         = (Inr r, m')
     \<and> map_of (ghg_emissions r) ''total'' = Some total
     \<and> 15 \<le> total * 1000 \<and> total * 1000 \<le> 30"
proof -
  obtain r m' where
    a: "calculate_lca
       (documented_example cc_energy cc_water el_water tech conv_efficiency conv_water density)
         = (Inr r, m')"
    and b: "map_of (ghg_emissions r) ''total'' = Some (371803 / 17307000)"
    using example_total_value by blast
  have "15 \<le> (371803 / 17307000 :: real) * 1000" and "(371803 / 17307000 :: real) * 1000 \<le> 30"
    by simp_all
  with a b show ?thesis by blast
qed

text \<open>
  C2. When all five parameter groups are populated and the energy density, the capture
  efficiency and the two electrolysis efficiencies are nonzero, the result that
  calculate_lca returns holds the five GHG stage values and a total, and the total is the
  sum of the five stage values, added in the order of the stages: the equation holds
  exactly, hence within any tolerance.
\<close>

theorem ghg_stages_sum_to_total:
  assumes "carbon_capture_data m = Some cc" and "electrolysis_data m = Some el"
    and "conversion_data m = Some conv" and "distribution_data m = Some dd"
    and "use_phase_data m = Some up"
    and "energy_density up \<noteq> 0" and "capture_efficiency cc \<noteq> 0"
    and "co2_electrolysis_efficiency el \<noteq> 0" and "water_electrolysis_efficiency el \<noteq> 0"
    and "calculate_lca m = (Inr r, m')"
  shows "\<exists>c e v d u t.
               map_of (ghg_emissions r) ''carbon_capture'' = Some c
             \<and> map_of (ghg_emissions r) ''electrolysis'' = Some e
             \<and> map_of (ghg_emissions r) ''conversion'' = Some v
             \<and> map_of (ghg_emissions r) ''distribution'' = Some d
             \<and> map_of (ghg_emissions r) ''use_phase'' = Some u
             \<and> map_of (ghg_emissions r) ''total'' = Some t
             \<and> c + e + v + d + u = t"
proof -
  have "lca_values cc el conv dd up = Inr r"
    using assms(1-5,10) by (auto dest: calculate_lca_Inr)
  then obtain c e v where "ghg_emissions r =
           [(''carbon_capture'', c), (''electrolysis'', e), (''conversion'', v),
            (''distribution'', dist_ghg_emissions dd * (1 / energy_density up)),
            (''use_phase'', combustion_emissions up * (1 / energy_density up)),
            (''total'', c + e + v + dist_ghg_emissions dd * (1 / energy_density up)
                          + combustion_emissions up * (1 / energy_density up))]"
    using lca_values_ghg by blast
  then show ?thesis by simp
qed

theorem ghg_stages_sum_to_total_witness:
  "map_option capture_efficiency (carbon_capture_data script_example) = Some 80
   \<and> map_option co2_electrolysis_efficiency (electrolysis_data script_example) = Some 65
   \<and> map_option water_electrolysis_efficiency (electrolysis_data script_example) = Some 75
   \<and> conversion_data script_example \<noteq> None \<and> distribution_data script_example \<noteq> None
   \<and> map_option energy_density (use_phase_data script_example) = Some 43
   \<and> (\<exists>r c e v d u t.
        calculate_lca script_example = (Inr r, script_example\<lparr>results := r\<rparr>)
      \<and> map_of (ghg_emissions r) ''carbon_capture'' = Some c
      \<and> map_of (ghg_emissions r) ''electrolysis'' = Some e
      \<and> map_of (ghg_emissions r) ''conversion'' = Some v
      \<and> map_of (ghg_emissions r) ''distribution'' = Some d
      \<and> map_of (ghg_emissions r) ''use_phase'' = Some u
      \<and> map_of (ghg_emissions r) ''total'' = Some t
      \<and> c + e + v + d + u = t)"
proof -
  obtain r where r: "calculate_lca script_example = (Inr r, script_example\<lparr>results := r\<rparr>)"
    using script_example_returns by blast
  have "\<exists>c e v d u t.
               map_of (ghg_emissions r) ''carbon_capture'' = Some c
             \<and> map_of (ghg_emissions r) ''electrolysis'' = Some e
             \<and> map_of (ghg_emissions r) ''conversion'' = Some v
             \<and> map_of (ghg_emissions r) ''distribution'' = Some d
             \<and> map_of (ghg_emissions r) ''use_phase'' = Some u
             \<and> map_of (ghg_emissions r) ''total'' = Some t
             \<and> c + e + v + d + u = t"
    by (rule ghg_stages_sum_to_total [OF script_example_groups(1-5) _ _ _ _ r]) simp_all
  moreover have "map_option capture_efficiency (carbon_capture_data script_example) = Some 80"
    "map_option co2_electrolysis_efficiency (electrolysis_data script_example) = Some 65"
    "map_option water_electrolysis_efficiency (electrolysis_data script_example) = Some 75"
    "conversion_data script_example \<noteq> None" "distribution_data script_example \<noteq> None"
    "map_option energy_density (use_phase_data script_example) = Some 43"
    by (simp_all add: script_example_groups)
  ultimately show ?thesis using r by blast
qed

text \<open>
  C3. Let calculate_lca return a result from a model whose distribution group is as the
  setter stored it. Then either sweep, started in the state that call left, ends in that
  state again, whatever the list of electricity sources and for every list of known
  transport modes; calculate_lca called afterwards returns the same result and leaves the
  same state; and the sweep completes unless the list is empty. Started from the model
  before the call (its result table empty or out of date), either sweep ends in the state
  the call leaves.
\<close>

theorem sweeps_restore_state:
  assumes "calculate_lca m = (Inr r0, m0)"
    and "distribution_data m = Some dd" and "stored_by_setter dd"
    and "case transport_modes of None \<Rightarrow> True
         | Some l \<Rightarrow> set l \<subseteq> {''truck'', ''rail'', ''ship'', ''barge'', ''pipeline''}"
  shows "snd (analyze_electricity_sources electricity_sources m0) = m0
    \<and> snd (analyze_transport_modes transport_modes base_distance m0) = m0
    \<and> calculate_lca m0 = (Inr r0, m0)
    \<and> (electricity_sources \<noteq> Some [] \<longrightarrow>
         (\<exists>rows. fst (analyze_electricity_sources electricity_sources m0) = Inr rows))
    \<and> (transport_modes \<noteq> Some [] \<longrightarrow>
         (\<exists>rows. fst (analyze_transport_modes transport_modes base_distance m0) = Inr rows))
    \<and> snd (analyze_electricity_sources electricity_sources m) = m0
    \<and> snd (analyze_transport_modes transport_modes base_distance m) = m0"
proof -
  from assms(1) obtain cc el conv dd' up where
    g: "carbon_capture_data m = Some cc" "electrolysis_data m = Some el"
      "conversion_data m = Some conv" "distribution_data m = Some dd'"
      "use_phase_data m = Some up"
    and v: "lca_values cc el conv dd' up = Inr r0" and m0: "m0 = m\<lparr>results := r0\<rparr>"
    using calculate_lca_Inr by blast
  have dd: "dd' = dd" using g(4) assms(2) by simp
  have g0: "carbon_capture_data m0 = Some cc" "electrolysis_data m0 = Some el"
      "conversion_data m0 = Some conv" "distribution_data m0 = Some dd"
      "use_phase_data m0 = Some up"
    using g dd by (simp_all add: m0)
  have v': "lca_values cc el conv dd up = Inr r0" using v dd by simp
  have same: "m0\<lparr>results := r0\<rparr> = m0" by (simp add: m0)
  have c: "calculate_lca m0 = (Inr r0, m0)"
    using calculate_lca_populated [OF g0] v' same by simp
  note e0 = analyze_electricity_sources_restores [OF g0 v', of electricity_sources]
  note t0 = analyze_transport_modes_restores [OF g0 v' assms(3,4), of base_distance]
  note e = analyze_electricity_sources_restores [OF g(1-3) assms(2) g(5) v', of electricity_sources]
  note t = analyze_transport_modes_restores [OF g(1-3) assms(2) g(5) v' assms(3,4), of base_distance]
  from e0 t0 e t c show ?thesis unfolding same m0 [symmetric] by blast
qed

theorem sweeps_restore_state_witness:
  "(\<exists>r. fst (calculate_lca script_example) = Inr r)
   \<and> snd (analyze_electricity_sources None (snd (calculate_lca script_example)))
       = snd (calculate_lca script_example)
   \<and> snd (analyze_transport_modes (Some [''rail'', ''ship'']) 200 (snd (calculate_lca script_example)))
       = snd (calculate_lca script_example)
   \<and> calculate_lca (snd (calculate_lca script_example)) = calculate_lca script_example
   \<and> (\<exists>rows. fst (analyze_electricity_sources None (snd (calculate_lca script_example))) = Inr rows)
   \<and> (\<exists>rows. fst (analyze_transport_modes (Some [''rail'', ''ship'']) 200
                     (snd (calculate_lca script_example))) = Inr rows)"
proof -
  obtain r where r: "calculate_lca script_example = (Inr r, script_example\<lparr>results := r\<rparr>)"
    using script_example_returns by blast
  have k: "case Some [''rail'', ''ship''] of None \<Rightarrow> True
         | Some l \<Rightarrow> set l \<subseteq> {''truck'', ''rail'', ''ship'', ''barge'', ''pipeline''}"
    by simp
  from sweeps_restore_state [OF r script_example_groups(4) script_example_stored_by_setter k,
      of None 200]
  show ?thesis unfolding r by simp
qed

text \<open>
  C4, as the code has it. The result of calculate_lca has four tables. The GHG table holds
  the five stages and a total; the energy table holds four stages (there is no use phase)
  and a total; the water table holds three stages (carbon capture, electrolysis,
  conversion) and a total; the land-use table holds the total 0 only. In each table the
  total is the sum of the stage values the table holds. The tables returned are the ones
  stored in the model.
\<close>

theorem result_tables_shape:
  assumes "calculate_lca m = (Inr r, m')"
  shows "results m' = r
    \<and> map fst (ghg_emissions r) =
        [''carbon_capture'', ''electrolysis'', ''conversion'', ''distribution'', ''use_phase'',
         ''total'']
    \<and> map fst (energy_consumption r) =
        [''carbon_capture'', ''electrolysis'', ''conversion'', ''distribution'', ''total'']
    \<and> map fst (water_usage r) = [''carbon_capture'', ''electrolysis'', ''conversion'', ''total'']
    \<and> land_use r = [(''total'', 0)]
    \<and> total_is_sum (ghg_emissions r) \<and> total_is_sum (energy_consumption r)
    \<and> total_is_sum (water_usage r) \<and> total_is_sum (land_use r)"
proof -
  from assms obtain cc el conv dd up where
    v: "lca_values cc el conv dd up = Inr r" and m': "m' = m\<lparr>results := r\<rparr>"
    using calculate_lca_Inr by blast
  from lca_values_shape [OF v] m' show ?thesis by simp
qed

theorem result_tables_shape_witness:
  "\<exists>r m'. calculate_lca script_example = (Inr r, m')
    \<and> results m' = r
    \<and> map fst (ghg_emissions r) =
        [''carbon_capture'', ''electrolysis'', ''conversion'', ''distribution'', ''use_phase'',
         ''total'']
    \<and> map fst (energy_consumption r) =
        [''carbon_capture'', ''electrolysis'', ''conversion'', ''distribution'', ''total'']
    \<and> map fst (water_usage r) = [''carbon_capture'', ''electrolysis'', ''conversion'', ''total'']
    \<and> land_use r = [(''total'', 0)]
    \<and> total_is_sum (ghg_emissions r) \<and> total_is_sum (energy_consumption r)
    \<and> total_is_sum (water_usage r) \<and> total_is_sum (land_use r)"
proof -
  obtain r where r: "calculate_lca script_example = (Inr r, script_example\<lparr>results := r\<rparr>)"
    using script_example_returns by blast
  from result_tables_shape [OF r] r show ?thesis
    by - (rule exI [of _ r], rule exI [of _ "script_example\<lparr>results := r\<rparr>"],
        simp add: total_is_sum_def)
qed

text \<open>
  C4 as stated fails: in the result for the documented example, the energy table has no
  use phase, the water table has neither distribution nor use phase, and the land-use table
  has no carbon capture.
\<close>

theorem five_stages_counterexample:
  "fst (calculate_lca script_example) = Inr (results (snd (calculate_lca script_example)))
   \<and> map_of (energy_consumption (results (snd (calculate_lca script_example)))) ''use_phase'' = None
   \<and> map_of (water_usage (results (snd (calculate_lca script_example)))) ''distribution'' = None
   \<and> map_of (water_usage (results (snd (calculate_lca script_example)))) ''use_phase'' = None
   \<and> map_of (land_use (results (snd (calculate_lca script_example)))) ''carbon_capture'' = None"
proof -
  obtain r where r: "calculate_lca script_example = (Inr r, script_example\<lparr>results := r\<rparr>)"
    using script_example_returns by blast
  then obtain cc el conv dd up where v: "lca_values cc el conv dd up = Inr r"
    using calculate_lca_Inr by blast
  have "''use_phase'' \<notin> set (map fst (energy_consumption r))"
    "''distribution'' \<notin> set (map fst (water_usage r))"
    "''use_phase'' \<notin> set (map fst (water_usage r))"
    "''carbon_capture'' \<notin> set (map fst (land_use r))"
    unfolding lca_values_shape(1-4) [OF v] by simp_all
  then show ?thesis using r by (simp add: map_of_eq_None_iff)
qed

text \<open>
  C5, as the code has it. The lookup table of set_electrolysis_data has 14 sources, with
  distinct names. Called without a carbon intensity, the setter stores the table's
  intensity for a source of the table and prints no warning; for any other source it
  stores the intensity 0.020 of the generic renewable entry, does not fail, and prints the
  warning naming the source unless silent is set, in which case it prints nothing.
\<close>

theorem electricity_source_resolution:
  "length electricity_carbon_intensities = 14
   \<and> distinct (map fst electricity_carbon_intensities)
   \<and> (\<forall>v. map_of electricity_carbon_intensities electricity_source' = Some v \<longrightarrow>
        set_electrolysis_data co2_eff water_eff electricity_source' input_co input_h2
                 water None silent m
               = (Inr [], m\<lparr>electrolysis_data := Some
                    \<lparr>co2_electrolysis_efficiency = co2_eff, water_electrolysis_efficiency = water_eff,
                     electricity_source = electricity_source', electricity_carbon_intensity = v,
                     energy_input_co = input_co, energy_input_h2 = input_h2, el_water_usage = water\<rparr>\<rparr>))
   \<and> (electricity_source' \<notin> set (map fst electricity_carbon_intensities) \<longrightarrow>
        set_electrolysis_data co2_eff water_eff electricity_source' input_co input_h2
                 water None silent m
               = (Inr (if silent then [] else [unrecognized_warning electricity_source']),
                  m\<lparr>electrolysis_data := Some
                    \<lparr>co2_electrolysis_efficiency = co2_eff, water_electrolysis_efficiency = water_eff,
                     electricity_source = electricity_source', electricity_carbon_intensity = 0.020,
                     energy_input_co = input_co, energy_input_h2 = input_h2, el_water_usage = water\<rparr>\<rparr>))"
proof (intro conjI allI impI)
  show "length electricity_carbon_intensities = 14"
    by (simp add: electricity_carbon_intensities_def)
  show "distinct (map fst electricity_carbon_intensities)"
    by (simp add: electricity_carbon_intensities_def)
next
  fix v assume "map_of electricity_carbon_intensities electricity_source' = Some v"
  then show "set_electrolysis_data co2_eff water_eff electricity_source' input_co input_h2
                 water None silent m
               = (Inr [], m\<lparr>electrolysis_data := Some
                    \<lparr>co2_electrolysis_efficiency = co2_eff, water_electrolysis_efficiency = water_eff,
                     electricity_source = electricity_source', electricity_carbon_intensity = v,
                     energy_input_co = input_co, energy_input_h2 = input_h2, el_water_usage = water\<rparr>\<rparr>)"
    by (simp add: set_electrolysis_data_def)
next
  assume "electricity_source' \<notin> set (map fst electricity_carbon_intensities)"
  then have n: "map_of electricity_carbon_intensities electricity_source' = None"
    by (simp add: map_of_eq_None_iff)
  have d: "getitem electricity_carbon_intensities ''renewable'' = Inr 0.020"
    by (simp add: getitem_def electricity_carbon_intensities_def)
  show "set_electrolysis_data co2_eff water_eff electricity_source' input_co input_h2
                 water None silent m
               = (Inr (if silent then [] else [unrecognized_warning electricity_source']),
                  m\<lparr>electrolysis_data := Some
                    \<lparr>co2_electrolysis_efficiency = co2_eff, water_electrolysis_efficiency = water_eff,
                     electricity_source = electricity_source', electricity_carbon_intensity = 0.020,
                     energy_input_co = input_co, energy_input_h2 = input_h2, el_water_usage = water\<rparr>\<rparr>)"
    by (simp add: set_electrolysis_data_def n d)
qed

theorem electricity_source_resolution_witness:
  "map_of electricity_carbon_intensities ''wind'' = Some 0.011
   \<and> set_electrolysis_data 65 75 ''wind'' 28 55 20 None False init_model
             = (Inr [], init_model\<lparr>electrolysis_data := Some
                    \<lparr>co2_electrolysis_efficiency = 65, water_electrolysis_efficiency = 75,
                     electricity_source = ''wind'', electricity_carbon_intensity = 0.011,
                     energy_input_co = 28, energy_input_h2 = 55, el_water_usage = 20\<rparr>\<rparr>)
   \<and> ''teleport'' \<notin> set (map fst electricity_carbon_intensities)
   \<and> set_electrolysis_data 65 75 ''teleport'' 28 55 20 None False init_model
             = (Inr [unrecognized_warning ''teleport''],
                init_model\<lparr>electrolysis_data := Some
                    \<lparr>co2_electrolysis_efficiency = 65, water_electrolysis_efficiency = 75,
                     electricity_source = ''teleport'', electricity_carbon_intensity = 0.020,
                     energy_input_co = 28, energy_input_h2 = 55, el_water_usage = 20\<rparr>\<rparr>)"
proof -
  have a: "map_of electricity_carbon_intensities ''wind'' = Some 0.011"
    by (simp add: electricity_carbon_intensities_def)
  have b: "''teleport'' \<notin> set (map fst electricity_carbon_intensities)"
    by (simp add: electricity_carbon_intensities_def)
  from a electricity_source_resolution [of "''wind''" 65 75 28 55 20 False init_model]
  have "set_electrolysis_data 65 75 ''wind'' 28 55 20 None False init_model
             = (Inr [], init_model\<lparr>electrolysis_data := Some
                    \<lparr>co2_electrolysis_efficiency = 65, water_electrolysis_efficiency = 75,
                     electricity_source = ''wind'', electricity_carbon_intensity = 0.011,
                     energy_input_co = 28, energy_input_h2 = 55, el_water_usage = 20\<rparr>\<rparr>)" by blast
  moreover from b electricity_source_resolution [of "''teleport''" 65 75 28 55 20 False init_model]
  have "set_electrolysis_data 65 75 ''teleport'' 28 55 20 None False init_model
             = (Inr [unrecognized_warning ''teleport''],
                init_model\<lparr>electrolysis_data := Some
                    \<lparr>co2_electrolysis_efficiency = 65, water_electrolysis_efficiency = 75,
                     electricity_source = ''teleport'', electricity_carbon_intensity = 0.020,
                     energy_input_co = 28, energy_input_h2 = 55, el_water_usage = 20\<rparr>\<rparr>)" by simp
  ultimately show ?thesis using a b by blast
qed

text \<open>
  C5 as stated fails: the table has not 15 entries, and a silent call with an unknown
  source prints no warning.
\<close>

theorem fifteen_sources_counterexample:
  "length electricity_carbon_intensities \<noteq> 15
   \<and> ''teleport'' \<notin> set (map fst electricity_carbon_intensities)
   \<and> fst (set_electrolysis_data 65 75 ''teleport'' 28 55 20 None True init_model) = Inr []"
  by (simp add: electricity_carbon_intensities_def set_electrolysis_data_def getitem_def)

text \<open>
  C6. For a transport mode outside truck, rail, ship, barge and pipeline, whatever the
  distance, set_distribution_data raises its ValueError and leaves the whole model, the
  distribution group included, as it was; for each of the five modes it does not raise
  and changes the distribution group only.
\<close>

theorem set_distribution_data_validates:
  "(transport_mode' \<notin> {''truck'', ''rail'', ''ship'', ''barge'', ''pipeline''} \<longrightarrow>
      set_distribution_data transport_distance' transport_mode' fuel_density' m
        = (Inl (ValueError_transport_mode transport_mode'), m))
   \<and> (transport_mode' \<in> {''truck'', ''rail'', ''ship'', ''barge'', ''pipeline''} \<longrightarrow>
      (\<exists>dd. set_distribution_data transport_distance' transport_mode' fuel_density' m
        = (Inr (), m\<lparr>distribution_data := Some dd\<rparr>)))"
  by (auto simp: set_distribution_data_def emission_factors_def energy_factors_def Let_def)

theorem set_distribution_data_validates_witness:
  "''teleport'' \<notin> {''truck'', ''rail'', ''ship'', ''barge'', ''pipeline''}
   \<and> set_distribution_data 1 ''teleport'' 0.8 script_example
       = (Inl (ValueError_transport_mode ''teleport''), script_example)
   \<and> ''rail'' \<in> {''truck'', ''rail'', ''ship'', ''barge'', ''pipeline''}
   \<and> (\<exists>dd. set_distribution_data 1 ''rail'' 0.8 script_example
        = (Inr (), script_example\<lparr>distribution_data := Some dd\<rparr>))"
proof -
  have a: "''teleport'' \<notin> {''truck'', ''rail'', ''ship'', ''barge'', ''pipeline''}" by simp
  have b: "''rail'' \<in> {''truck'', ''rail'', ''ship'', ''barge'', ''pipeline''}" by simp
  note t = set_distribution_data_validates [of "''teleport''" 1 "0.8" script_example]
  note r = set_distribution_data_validates [of "''rail''" 1 "0.8" script_example]
  have 1: "set_distribution_data 1 ''teleport'' 0.8 script_example
       = (Inl (ValueError_transport_mode ''teleport''), script_example)"
    using t [THEN conjunct1, THEN mp, OF a] .
  have 2: "\<exists>dd. set_distribution_data 1 ''rail'' 0.8 script_example
        = (Inr (), script_example\<lparr>distribution_data := Some dd\<rparr>)"
    using r [THEN conjunct2, THEN mp, OF b] .
  show ?thesis using a 1 b 2 by (intro conjI)
qed




text \<open>
  C9. For a nonzero fossil baseline f: when the GHG table holds a total t,
  calculate_emission_reduction returns (f - t * 1000) / f * 100 and leaves the model as it
  was, so that a second call returns the same. When the GHG table is empty it calls
  calculate_lca once; if that returns, the reduction is computed from the new total, the
  model differs from the one before in the result tables only, and a second call returns
  the same value and changes nothing; if calculate_lca raises, so does the reduction.
\<close>

theorem emission_reduction_formula:
  assumes "fossil_jet_emissions \<noteq> 0"
  shows "(\<forall>t. map_of (ghg_emissions (results m)) ''total'' = Some t \<longrightarrow>
            calculate_emission_reduction fossil_jet_emissions m
              = (Inr ((fossil_jet_emissions - t * 1000) / fossil_jet_emissions * 100), m))
   \<and> (\<forall>r m'. ghg_emissions (results m) = [] \<and> calculate_lca m = (Inr r, m') \<longrightarrow>
         (\<exists>t. map_of (ghg_emissions r) ''total'' = Some t
            \<and> m' = m\<lparr>results := r\<rparr>
            \<and> calculate_emission_reduction fossil_jet_emissions m
                = (Inr ((fossil_jet_emissions - t * 1000) / fossil_jet_emissions * 100), m')
            \<and> calculate_emission_reduction fossil_jet_emissions m'
                = (Inr ((fossil_jet_emissions - t * 1000) / fossil_jet_emissions * 100), m')))
   \<and> (\<forall>e m'. ghg_emissions (results m) = [] \<and> calculate_lca m = (Inl e, m') \<longrightarrow>
         calculate_emission_reduction fossil_jet_emissions m = (Inl e, m))"
proof (intro conjI allI impI)
  fix t assume t: "map_of (ghg_emissions (results m)) ''total'' = Some t"
  then have "ghg_emissions (results m) \<noteq> []" by auto
  with t assms show "calculate_emission_reduction fossil_jet_emissions m
              = (Inr ((fossil_jet_emissions - t * 1000) / fossil_jet_emissions * 100), m)"
    by (simp add: calculate_emission_reduction_def getitem_def Let_def)
next
  fix r m'
  assume a: "ghg_emissions (results m) = [] \<and> calculate_lca m = (Inr r, m')"
  then obtain cc el conv dd up where v: "lca_values cc el conv dd up = Inr r"
    and m': "m' = m\<lparr>results := r\<rparr>"
    using calculate_lca_Inr by blast
  from lca_values_ghg [OF v] obtain t where t: "map_of (ghg_emissions r) ''total'' = Some t"
    by auto
  then have ne: "ghg_emissions r \<noteq> []" by auto
  have 1: "calculate_emission_reduction fossil_jet_emissions m
                = (Inr ((fossil_jet_emissions - t * 1000) / fossil_jet_emissions * 100), m')"
    using a t m' assms by (simp add: calculate_emission_reduction_def getitem_def Let_def)
  have 2: "calculate_emission_reduction fossil_jet_emissions m'
                = (Inr ((fossil_jet_emissions - t * 1000) / fossil_jet_emissions * 100), m')"
    using t ne m' assms by (simp add: calculate_emission_reduction_def getitem_def Let_def)
  from t m' 1 2 show "\<exists>t. map_of (ghg_emissions r) ''total'' = Some t
            \<and> m' = m\<lparr>results := r\<rparr>
            \<and> calculate_emission_reduction fossil_jet_emissions m
                = (Inr ((fossil_jet_emissions - t * 1000) / fossil_jet_emissions * 100), m')
            \<and> calculate_emission_reduction fossil_jet_emissions m'
                = (Inr ((fossil_jet_emissions - t * 1000) / fossil_jet_emissions * 100), m')"
    by blast
next
  fix e m'
  assume a: "ghg_emissions (results m) = [] \<and> calculate_lca m = (Inl e, m')"
  then have "m' = m" using calculate_lca_Inl by blast
  with a show "calculate_emission_reduction fossil_jet_emissions m = (Inl e, m)"
    by (simp add: calculate_emission_reduction_def)
qed

theorem emission_reduction_formula_witness:
  "(89::real) \<noteq> 0
   \<and> ghg_emissions (results script_example) = []
   \<and> (\<exists>r t. calculate_lca script_example = (Inr r, script_example\<lparr>results := r\<rparr>)
        \<and> map_of (ghg_emissions r) ''total'' = Some t
        \<and> calculate_emission_reduction 89 script_example
            = (Inr ((89 - t * 1000) / 89 * 100), script_example\<lparr>results := r\<rparr>)
        \<and> calculate_emission_reduction 89 (script_example\<lparr>results := r\<rparr>)
            = (Inr ((89 - t * 1000) / 89 * 100), script_example\<lparr>results := r\<rparr>))"
proof -
  have z: "(89::real) \<noteq> 0" by simp
  have e: "ghg_emissions (results script_example) = []" by (simp add: script_example_groups)
  obtain r where r: "calculate_lca script_example = (Inr r, script_example\<lparr>results := r\<rparr>)"
    using script_example_returns by blast
  from emission_reduction_formula [OF z, of script_example] e r
  obtain t where "map_of (ghg_emissions r) ''total'' = Some t"
    and "calculate_emission_reduction 89 script_example
            = (Inr ((89 - t * 1000) / 89 * 100), script_example\<lparr>results := r\<rparr>)"
    and "calculate_emission_reduction 89 (script_example\<lparr>results := r\<rparr>)
            = (Inr ((89 - t * 1000) / 89 * 100), script_example\<lparr>results := r\<rparr>)"
    by blast
  with z e r show ?thesis by blast
qed

text \<open>
  C10. When the five groups are populated and the energy density, the capture efficiency
  or one of the two electrolysis efficiencies is zero, calculate_lca raises
  ZeroDivisionError and the model, with the result tables stored before, is unchanged.
\<close>

theorem division_error_leaves_results:
  assumes "carbon_capture_data m = Some cc" and "electrolysis_data m = Some el"
    and "conversion_data m = Some conv" and "distribution_data m = Some dd"
    and "use_phase_data m = Some up"
    and "energy_density up = 0 \<or> capture_efficiency cc = 0
         \<or> co2_electrolysis_efficiency el = 0 \<or> water_electrolysis_efficiency el = 0"
  shows "calculate_lca m = (Inl ZeroDivisionError, m)"
proof -
  have "\<not> divisors_nonzero cc el conv up"
    using assms(6) by (auto simp: divisors_nonzero_def)
  then have "lca_values cc el conv dd up = Inl ZeroDivisionError"
    by (rule lca_values_raises)
  then show ?thesis using assms(1-5) by (simp add: calculate_lca_populated)
qed

theorem division_error_leaves_results_witness:
  "use_phase_data (set_use_phase_data 0 0 script_example)
     = Some \<lparr>combustion_emissions = 0, energy_density = 0\<rparr>
   \<and> calculate_lca (set_use_phase_data 0 0 script_example)
     = (Inl ZeroDivisionError, set_use_phase_data 0 0 script_example)"
proof -
  have g: "carbon_capture_data (set_use_phase_data 0 0 script_example) = Some
     \<lparr>capture_efficiency = 80, energy_requirement = 20, cc_ghg_emissions = 0.08,
      cc_water_usage = 5, co2_capture_rate = 3.1\<rparr>"
  "electrolysis_data (set_use_phase_data 0 0 script_example) = Some
     \<lparr>co2_electrolysis_efficiency = 65, water_electrolysis_efficiency = 75,
      electricity_source = ''wind'', electricity_carbon_intensity = 0.011,
      energy_input_co = 28, energy_input_h2 = 55, el_water_usage = 20\<rparr>"
  "conversion_data (set_use_phase_data 0 0 script_example) = Some
     \<lparr>technology = ''Fischer-Tropsch'', efficiency = 0.65, conv_ghg_emissions = 0.2,
      conv_energy_input = 25, conv_water_usage = 5, syngas_requirement = Some 2.13,
      co_h2_ratio = Some 0.923\<rparr>"
  "distribution_data (set_use_phase_data 0 0 script_example) = Some
     \<lparr>transport_distance = 500, transport_mode = ''truck'', fuel_density = 0.8,
      emission_factor = 0.062, energy_factor = 2.1, dist_ghg_emissions = 0.031,
      dist_energy_input = 1.05\<rparr>"
  "use_phase_data (set_use_phase_data 0 0 script_example)
     = Some \<lparr>combustion_emissions = 0, energy_density = 0\<rparr>"
    by (simp_all add: set_use_phase_data_def script_example_groups)
  from division_error_leaves_results [OF g] g(5) show ?thesis by simp
qed

end
